theory Spec2Isabelle
  imports Complex_Main
begin

section \<open>Python values shared by the camera and the manager\<close>

text \<open>
  The exceptions the modelled code can raise. A function that may raise returns a sum:
  \<open>Inl (e, s)\<close> is "raised \<open>e\<close>, leaving the object in state \<open>s\<close>" (a Python
  exception does not undo the assignments made before it), \<open>Inr\<close> is a normal return.
\<close>

datatype error =
    RuntimeError
  | TypeError
  | ValueError
  | IndexError
  | KeyError
  | AttributeError
  | ZeroDivisionError
  | NotModelled

text \<open>
  \<open>NotModelled\<close> is no Python exception: \<open>py_format\<close> below returns it for a
  replacement field outside the part of the format mini-language that is modelled, and
  nothing is stated about such a template.
\<close>

text \<open>\<open>str.lower()\<close> on the ASCII letters; every other character is left as it is.\<close>

definition lower_char :: "char \<Rightarrow> char" where
  "lower_char c =
     (case map_of (zip ''ABCDEFGHIJKLMNOPQRSTUVWXYZ'' ''abcdefghijklmnopqrstuvwxyz'') c of
        None \<Rightarrow> c
      | Some l \<Rightarrow> l)"

definition lower :: "string \<Rightarrow> string" where
  "lower s = map lower_char s"

section \<open>str.format with the counter as its only argument\<close>

definition digit_char :: "nat \<Rightarrow> char" where
  "digit_char d = ''0123456789'' ! d"

fun digits_of :: "nat \<Rightarrow> string" where
  "digits_of n = (if n < 10 then [digit_char n] else digits_of (n div 10) @ [digit_char (n mod 10)])"

declare digits_of.simps [simp del]

text \<open>\<open>str(n)\<close> and \<open>format(n, '0<w>d')\<close> (zero padding after the sign, to width \<open>w\<close>).\<close>

definition str_int :: "int \<Rightarrow> string" where
  "str_int n = (if n < 0 then ''-'' else []) @ digits_of (nat \<bar>n\<bar>)"

definition zero_pad :: "nat \<Rightarrow> int \<Rightarrow> string" where
  "zero_pad w n =
     (let sign = (if n < 0 then ''-'' else []);
          ds = digits_of (nat \<bar>n\<bar>)
      in sign @ replicate (w - length sign - length ds) (CHR ''0'') @ ds)"

definition is_digit :: "char \<Rightarrow> bool" where
  "is_digit c = (c \<in> set ''0123456789'')"

definition digit_val :: "char \<Rightarrow> nat" where
  "digit_val c = length (takeWhile (\<lambda>d. d \<noteq> c) ''0123456789'')"

definition nat_of_digits :: "string \<Rightarrow> nat" where
  "nat_of_digits s = foldl (\<lambda>a c. 10 * a + digit_val c) 0 s"

definition is_ident_start :: "char \<Rightarrow> bool" where
  "is_ident_start c =
     (c \<in> set ''abcdefghijklmnopqrstuvwxyzABCDEFGHIJKLMNOPQRSTUVWXYZ_'')"

text \<open>
  The format specifications modelled: empty, \<open>d\<close>, and \<open>0<width>d\<close> with a width
  written without a leading zero.
\<close>

definition format_spec :: "string \<Rightarrow> int \<Rightarrow> error + string" where
  "format_spec spec n =
     (if spec = [] \<or> spec = ''d'' then Inr (str_int n)
      else
        (case spec of
           z # rest \<Rightarrow>
             (let w = butlast rest in
              if z = CHR ''0'' \<and> rest \<noteq> [] \<and> last rest = CHR ''d'' \<and> w \<noteq> []
                 \<and> list_all is_digit w \<and> hd w \<noteq> CHR ''0''
              then Inr (zero_pad (nat_of_digits w) n)
              else Inl NotModelled)
         | [] \<Rightarrow> Inl NotModelled))"

text \<open>
  The state of \<open>str.format\<close>'s field numbering: no numbered field seen yet, automatic
  (\<open>{}\<close>, with the next index), or manual (\<open>{0}\<close>).
\<close>

datatype numbering = Unset | Auto nat | Manual

text \<open>
  One replacement field \<open>{name:spec}\<close>, with the single positional argument \<open>n\<close>.
  The names modelled: empty, a decimal index without a leading zero, an identifier.
  Switching between automatic and manual numbering is a \<open>ValueError\<close>, an index other
  than 0 an \<open>IndexError\<close>, an identifier a \<open>KeyError\<close>; the argument is looked up
  before the specification is read.
\<close>

definition render_field :: "numbering \<Rightarrow> string \<Rightarrow> int \<Rightarrow> error + (string \<times> numbering)" where
  "render_field nb field n =
     (let fname = takeWhile (\<lambda>c. c \<noteq> CHR '':'') field;
          spec = drop (Suc (length fname)) field
      in if fname = [] then
           (case nb of
              Manual \<Rightarrow> Inl ValueError
            | Unset \<Rightarrow>
                (case format_spec spec n of Inl e \<Rightarrow> Inl e | Inr s \<Rightarrow> Inr (s, Auto 1))
            | Auto k \<Rightarrow>
                if k \<noteq> 0 then Inl IndexError
                else (case format_spec spec n of Inl e \<Rightarrow> Inl e | Inr s \<Rightarrow> Inr (s, Auto (Suc k))))
         else if list_all is_digit fname \<and> (fname = ''0'' \<or> hd fname \<noteq> CHR ''0'') then
           (case nb of
              Auto k \<Rightarrow> Inl ValueError
            | _ \<Rightarrow>
                if nat_of_digits fname \<noteq> 0 then Inl IndexError
                else (case format_spec spec n of Inl e \<Rightarrow> Inl e | Inr s \<Rightarrow> Inr (s, Manual)))
         else if is_ident_start (hd fname)
                 \<and> list_all (\<lambda>c. is_ident_start c \<or> is_digit c) fname then Inl KeyError
         else Inl NotModelled)"

text \<open>
  The scan of the template: \<open>format_from\<close> reads literal text (\<open>{{\<close> and \<open>}}\<close> are
  the escaped braces, a single \<open>}\<close> is a \<open>ValueError\<close>), \<open>format_field\<close> collects
  the characters of a replacement field up to its closing brace.
\<close>

fun format_from :: "numbering \<Rightarrow> string \<Rightarrow> int \<Rightarrow> error + string"
  and format_field :: "numbering \<Rightarrow> string \<Rightarrow> string \<Rightarrow> int \<Rightarrow> error + string"
where
  "format_from nb [] n = Inr []"
| "format_from nb (x # xs) n =
     (if x = CHR ''{'' then
        (case xs of
           [] \<Rightarrow> Inl ValueError
         | y # ys \<Rightarrow>
             if y = CHR ''{'' then map_sum id ((#) x) (format_from nb ys n)
             else format_field nb [] xs n)
      else if x = CHR ''}'' then
        (case xs of
           [] \<Rightarrow> Inl ValueError
         | y # ys \<Rightarrow>
             if y = CHR ''}'' then map_sum id ((#) x) (format_from nb ys n)
             else Inl ValueError)
      else map_sum id ((#) x) (format_from nb xs n))"
| "format_field nb field [] n = Inl ValueError"
| "format_field nb field (x # xs) n =
     (if x = CHR ''}'' then
        (case render_field nb field n of
           Inl e \<Rightarrow> Inl e
         | Inr (s, nb') \<Rightarrow> map_sum id ((@) s) (format_from nb' xs n))
      else if x = CHR ''{'' then Inl NotModelled
      else format_field nb (field @ [x]) xs n)"

definition py_format :: "string \<Rightarrow> int \<Rightarrow> error + string" where
  "py_format template n = format_from Unset template n"

section \<open>The camera object\<close>

text \<open>
  \<open>CameraBase.config\<close>: the persisted settings read or written by the methods modelled
  below, one field per key (\<open>config['settings']['exposure_time']\<close> is
  \<open>cfg_settings_exposure_time\<close>). Floats are exact rationals here.
\<close>

record config =
  cfg_do_save :: bool
  cfg_file_format :: string
  cfg_do_broadcast :: bool
  cfg_magnification :: rat
  cfg_counter :: int
  cfg_save_mode :: string
  cfg_roll_fps :: rat
  cfg_save_path :: "string option"
  cfg_file_prefix :: string
  cfg_settings_exposure_time :: "rat option"
  cfg_settings_exposure_number :: "int option"

text \<open>
  The calls a method makes on its collaborators (file writer, frame streamer, device
  hooks, logger above debug level) and on the threading events, in program order.
  Interpolated values of log messages are left out of the message text.
\<close>

datatype level = Info | Warning | Error | Exception

datatype outcome = Returned | Raised

datatype event =
    Log level string
  | FileWriterOpen "string option"
  | FileWriterClose "string option"
  | FileWriterSetMode string
  | FrameStreamerOn
  | FrameStreamerOff
  | TriggerExit outcome
  | DeviceArm
  | DeviceDisarm
  | DeviceRearm
  | DeviceSetExposureTime rat
  | DeviceSetExposureNumber int
  | AcquireDoneSet
  | AcquireDoneClear
  | AcquireDoneWait
  | DoAcquireSet
  | DoAcquireClear
  | AbortFlagSet
  | AbortFlagClear
  | QueueEmptyClear
  | LoopStart
  | LoopJoin

text \<open>
  What a detector subclass supplies. The hooks act on the subclass's own state \<open>'d\<close>.
  \<open>_trigger\<close> either returns or raises, and hands over the frames it read out, each of
  which it passes to \<open>enqueue_frame\<close>. \<open>h_join\<close> is the exception that
  \<open>Future.join\<close> (module \<open>util.future\<close>) raises in the calling thread, if any.
\<close>

record ('d, 'f, 'v) hooks =
  h_trigger :: "'d \<Rightarrow> outcome \<times> ('f \<times> (string \<rightharpoonup> 'v)) list \<times> 'd"
  h_arm :: "'d \<Rightarrow> 'd"
  h_disarm :: "'d \<Rightarrow> 'd"
  h_rearm :: "'d \<Rightarrow> 'd"
  h_get_exposure_time :: "'d \<Rightarrow> rat"
  h_set_exposure_time :: "rat \<Rightarrow> 'd \<Rightarrow> 'd"
  h_get_exposure_number :: "'d \<Rightarrow> int"
  h_set_exposure_number :: "int \<Rightarrow> 'd \<Rightarrow> 'd"
  h_join :: "error option"

text \<open>
  The attributes of a \<open>CameraBase\<close> instance. \<open>BASE_PATH\<close> and \<open>MAX_FPS\<close> are the
  class constants; \<open>loop_future\<close> is \<open>None\<close> until the first \<open>arm\<close>; each
  \<open>threading.Event\<close> is the boolean it holds; \<open>frame_queue\<close> has its oldest item first.
\<close>

record ('d, 'f, 'v) camera =
  name :: string
  BASE_PATH :: string
  MAX_FPS :: rat
  config :: config
  dev :: 'd
  loop_future :: "unit option"
  armed :: bool
  rolling :: bool
  auto_armed :: bool
  filename :: "string option"
  end_acquisition :: bool
  scan_path_attr :: "string option"
  abort_flag :: bool
  exposure_time_before_roll :: "rat option"
  exposure_number_before_roll :: "int option"
  metadata :: "string \<rightharpoonup> (string \<rightharpoonup> 'v)"
  localmeta :: "string \<rightharpoonup> 'v"
  do_acquire :: bool
  acquire_done :: bool
  frame_queue_empty_flag :: bool
  stop_rolling_flag :: bool
  frame_queue :: "('f \<times> (string \<rightharpoonup> (string \<rightharpoonup> 'v))) list"
  trace :: "event list"

definition emit :: "event list \<Rightarrow> ('d, 'f, 'v) camera \<Rightarrow> ('d, 'f, 'v) camera" where
  "emit evs c = c\<lparr>trace := trace c @ evs\<rparr>"

subsection \<open>enqueue_frame\<close>

definition enqueue_frame ::
  "'f \<Rightarrow> (string \<rightharpoonup> 'v) \<Rightarrow> ('d, 'f, 'v) camera \<Rightarrow> ('d, 'f, 'v) camera" where
  "enqueue_frame frame meta c =
     (let c1 = (emit [QueueEmptyClear] c)\<lparr>frame_queue_empty_flag := False\<rparr>;
          metadata0 = metadata c1;
          localmeta0 = localmeta c1;
          c2 = c1\<lparr>metadata := Map.empty, localmeta := Map.empty\<rparr>;
          localmeta1 = localmeta0 ++ meta;
          metadata1 = metadata0(lower (name c2) \<mapsto> localmeta1)
      in c2\<lparr>frame_queue := frame_queue c2 @ [(frame, metadata1)]\<rparr>)"

text \<open>\<open>self._trigger()\<close>: the device hook, with the \<open>enqueue_frame\<close> calls it makes.\<close>

definition trigger ::
  "('d, 'f, 'v) hooks \<Rightarrow> ('d, 'f, 'v) camera \<Rightarrow> outcome \<times> ('d, 'f, 'v) camera" where
  "trigger h c =
     (case h_trigger h (dev c) of
        (out, frames, d) \<Rightarrow>
          (out, emit [TriggerExit out]
                  (foldl (\<lambda>c' (f, m). enqueue_frame f m c') (c\<lparr>dev := d\<rparr>) frames)))"

subsection \<open>Properties\<close>

definition exposure_time :: "('d, 'f, 'v) hooks \<Rightarrow> ('d, 'f, 'v) camera \<Rightarrow> rat" where
  "exposure_time h c = h_get_exposure_time h (dev c)"

definition set_exposure_time ::
  "('d, 'f, 'v) hooks \<Rightarrow> rat \<Rightarrow> ('d, 'f, 'v) camera \<Rightarrow> ('d, 'f, 'v) camera" where
  "set_exposure_time h v c =
     (let c1 = (emit [DeviceSetExposureTime v] c)\<lparr>dev := h_set_exposure_time h v (dev c)\<rparr>
      in c1\<lparr>config := (config c1)\<lparr>cfg_settings_exposure_time := Some v\<rparr>\<rparr>)"

definition exposure_number :: "('d, 'f, 'v) hooks \<Rightarrow> ('d, 'f, 'v) camera \<Rightarrow> int" where
  "exposure_number h c = h_get_exposure_number h (dev c)"

definition set_exposure_number ::
  "('d, 'f, 'v) hooks \<Rightarrow> int \<Rightarrow> ('d, 'f, 'v) camera \<Rightarrow> ('d, 'f, 'v) camera" where
  "set_exposure_number h v c =
     (let c1 = (emit [DeviceSetExposureNumber v] c)\<lparr>dev := h_set_exposure_number h v (dev c)\<rparr>
      in c1\<lparr>config := (config c1)\<lparr>cfg_settings_exposure_number := Some v\<rparr>\<rparr>)"

definition save_mode :: "('d, 'f, 'v) camera \<Rightarrow> string" where
  "save_mode c = cfg_save_mode (config c)"

definition set_save_mode ::
  "string \<Rightarrow> ('d, 'f, 'v) camera \<Rightarrow> (error \<times> ('d, 'f, 'v) camera) + ('d, 'f, 'v) camera" where
  "set_save_mode mode c =
     (let mode = lower mode in
      if mode \<notin> set [''ram'', ''append'', ''single''] then Inl (RuntimeError, c)
      else
        (let c1 = c\<lparr>config := (config c)\<lparr>cfg_save_mode := mode\<rparr>\<rparr>
         in Inr (emit [FileWriterSetMode mode] c1)))"

definition file_format :: "('d, 'f, 'v) camera \<Rightarrow> string" where
  "file_format c = cfg_file_format (config c)"

definition set_file_format ::
  "string \<Rightarrow> ('d, 'f, 'v) camera \<Rightarrow> (error \<times> ('d, 'f, 'v) camera) + ('d, 'f, 'v) camera" where
  "set_file_format v c =
     (if lower v \<in> set [''h5'', ''hdf'', ''hdf5''] then
        Inr (c\<lparr>config := (config c)\<lparr>cfg_file_format := ''hdf5''\<rparr>\<rparr>)
      else if lower v \<in> set [''tif'', ''tiff''] then
        Inr (c\<lparr>config := (config c)\<lparr>cfg_file_format := ''tiff''\<rparr>\<rparr>)
      else Inl (RuntimeError, c))"

definition counter :: "('d, 'f, 'v) camera \<Rightarrow> int" where
  "counter c = cfg_counter (config c)"

definition set_counter :: "int \<Rightarrow> ('d, 'f, 'v) camera \<Rightarrow> ('d, 'f, 'v) camera" where
  "set_counter v c = c\<lparr>config := (config c)\<lparr>cfg_counter := v\<rparr>\<rparr>"

definition is_live :: "('d, 'f, 'v) camera \<Rightarrow> bool" where
  "is_live c = cfg_do_broadcast (config c)"

definition live_on :: "('d, 'f, 'v) camera \<Rightarrow> ('d, 'f, 'v) camera" where
  "live_on c =
     (let c1 = emit [FrameStreamerOn] c
      in c1\<lparr>config := (config c1)\<lparr>cfg_do_broadcast := True\<rparr>\<rparr>)"

subsection \<open>disarm and roll_off\<close>

text \<open>
  \<open>self.loop_future.join()\<close> inside \<open>try ... except AttributeError: pass\<close>: with no
  future yet the attribute lookup on \<open>None\<close> raises \<open>AttributeError\<close>, which is
  swallowed; any other exception of \<open>join\<close> leaves \<open>disarm\<close>. \<open>join\<close> itself
  writes nothing to the camera: what the acquisition thread writes is its start, applied
  where \<open>arm\<close> starts the thread, and the passes it serves, \<open>acquisition_pass\<close> below.
\<close>

definition join_loop ::
  "('d, 'f, 'v) hooks \<Rightarrow> ('d, 'f, 'v) camera \<Rightarrow> (error \<times> ('d, 'f, 'v) camera) + ('d, 'f, 'v) camera" where
  "join_loop h c =
     (case loop_future c of
        None \<Rightarrow> Inr c
      | Some _ \<Rightarrow>
          (case h_join h of
             None \<Rightarrow> Inr (emit [LoopJoin] c)
           | Some e \<Rightarrow> if e = AttributeError then Inr c else Inl (e, c)))"

function disarm ::
    "('d, 'f, 'v) hooks \<Rightarrow> ('d, 'f, 'v) camera \<Rightarrow> (error \<times> ('d, 'f, 'v) camera) + ('d, 'f, 'v) camera"
  and roll_off ::
    "('d, 'f, 'v) hooks \<Rightarrow> ('d, 'f, 'v) camera \<Rightarrow> (error \<times> ('d, 'f, 'v) camera) + ('d, 'f, 'v) camera"
where
  "disarm h c =
     (if rolling c \<and> \<not> stop_rolling_flag c then
        roll_off h (emit [Log Info ''Camera is rolling. Calling roll_off first.''] c)
      else
        (case join_loop h (c\<lparr>end_acquisition := True\<rparr>) of
           Inl e \<Rightarrow> Inl e
         | Inr c1 \<Rightarrow>
             (let c2 = (emit [DeviceDisarm] c1)\<lparr>dev := h_disarm h (dev c1)\<rparr>
              in Inr (c2\<lparr>armed := False\<rparr>))))"
| "roll_off h c =
     (if \<not> rolling c then Inr c
      else
        (case disarm h (c\<lparr>stop_rolling_flag := True\<rparr>) of
           Inl e \<Rightarrow> Inl e
         | Inr c1 \<Rightarrow>
             (let c2 = c1\<lparr>rolling := False\<rparr>;
                  c3 = (case exposure_time_before_roll c2 of
                          None \<Rightarrow> c2
                        | Some t \<Rightarrow> if t \<noteq> 0 then set_exposure_time h t c2 else c2);
                  c4 = (case exposure_number_before_roll c3 of
                          None \<Rightarrow> c3
                        | Some n \<Rightarrow> if n \<noteq> 0 then set_exposure_number h n c3 else c3)
              in Inr c4)))"
  by pat_completeness auto
termination
  by (relation "measure (\<lambda>x. case x of
                    Inl (h, c) \<Rightarrow> (if rolling c \<and> \<not> stop_rolling_flag c then 2 else 0)
                  | Inr (h, c) \<Rightarrow> 1)")
     (auto simp: emit_def)

declare disarm.simps [simp del] roll_off.simps [simp del]

section \<open>The manager object\<close>

text \<open>\<open>os.path.join\<close> of two components (POSIX).\<close>

definition path_join :: "string \<Rightarrow> string \<Rightarrow> string" where
  "path_join a b =
     (if b \<noteq> [] \<and> hd b = CHR ''/'' then b
      else if a = [] \<or> last a = CHR ''/'' then a @ b
      else a @ ''/'' @ b)"

datatype mval = MNone | MInt int | MStr string

text \<open>\<open>ManagerBase.config\<close>, one field per key of \<open>DEFAULT_CONFIG\<close>.\<close>

record mconfig =
  mc_data_path :: "string option"
  mc_experiment :: "string option"
  mc_investigation :: "string option"
  mc_last_scan_info :: "string \<rightharpoonup> mval"

text \<open>
  The attributes of a \<open>ManagerBase\<close> instance; \<open>m_log\<close> are the log records above
  debug level.
\<close>

record manager =
  m_config :: mconfig
  m_running :: bool
  m_scan_name :: "string option"
  m_label :: "string option"
  m_base_file_name :: "string option"
  m_scan_number :: "int option"
  m_counter :: int
  m_scan_info :: "string \<rightharpoonup> mval"
  m_last_scan_info :: "string \<rightharpoonup> mval"
  m_log :: "(level \<times> string) list"

definition investigation :: "manager \<Rightarrow> string option" where
  "investigation m = mc_investigation (m_config m)"

definition experiment_m :: "manager \<Rightarrow> string option" where
  "experiment_m m = mc_experiment (m_config m)"

definition base_path :: "manager \<Rightarrow> string option" where
  "base_path m = mc_data_path (m_config m)"

definition scan_name :: "manager \<Rightarrow> string option" where
  "scan_name m = (if \<not> m_running m then None else m_scan_name m)"

definition path :: "manager \<Rightarrow> error + string" where
  "path m =
     (case (experiment_m m, investigation m) of
        (Some e, Some i) \<Rightarrow> Inr (path_join i e)
      | _ \<Rightarrow> Inl RuntimeError)"

definition scan_path :: "manager \<Rightarrow> error + string option" where
  "scan_path m =
     (if \<not> m_running m then Inr None
      else
        (case path m of
           Inl e \<Rightarrow> Inl e
         | Inr p \<Rightarrow>
             (case scan_name m of
                None \<Rightarrow> Inl TypeError
              | Some n \<Rightarrow> Inr (Some (path_join p n)))))"

section \<open>Arming and rolling\<close>

text \<open>
  The statements of \<open>acquisition_loop\<close> before its \<open>while True\<close>: the abort flag is
  cleared. \<open>Future(self.acquisition_loop)\<close> in \<open>arm\<close> starts the acquisition thread,
  which is taken to run these statements, up to its first wait, as soon as it is started;
  they have run, at the latest, when \<open>disarm\<close> has joined the thread.
\<close>

definition acquisition_loop_start :: "('d, 'f, 'v) camera \<Rightarrow> ('d, 'f, 'v) camera" where
  "acquisition_loop_start c = (emit [AbortFlagClear] c)\<lparr>abort_flag := False\<rparr>"

definition arm ::
  "('d, 'f, 'v) hooks \<Rightarrow> manager option \<Rightarrow> rat option \<Rightarrow> int option \<Rightarrow> ('d, 'f, 'v) camera
     \<Rightarrow> (error \<times> ('d, 'f, 'v) camera) + ('d, 'f, 'v) camera" where
  "arm h man exp_time exp_num c =
     (if rolling c then Inl (RuntimeError, c)
      else if armed c then Inr (emit [Log Warning ''arm() called but camera already armed.''] c)
      else
        (let c1 = (case exp_time of
                     None \<Rightarrow> c
                   | Some t \<Rightarrow>
                       if t \<noteq> exposure_time h c
                       then set_exposure_time h t (emit [Log Info ''Exposure time''] c)
                       else c);
             c2 = (case exp_num of
                     None \<Rightarrow> c1
                   | Some n \<Rightarrow>
                       if n \<noteq> exposure_number h c1
                       then set_exposure_number h n (emit [Log Info ''Exposure number''] c1)
                       else c1);
             c3 = (emit [AcquireDoneClear, DoAcquireClear] c2)
                    \<lparr>end_acquisition := False, acquire_done := False, do_acquire := False\<rparr>
         in case (case man of
                    None \<Rightarrow>
                      Inr ((emit [Log Error ''Not connected to manager!''] c3)
                             \<lparr>scan_path_attr := None\<rparr>)
                  | Some m \<Rightarrow>
                      (case scan_path m of
                         Inl e \<Rightarrow> Inl (e, c3)
                       | Inr p \<Rightarrow> Inr (c3\<lparr>scan_path_attr := p\<rparr>))) of
              Inl e \<Rightarrow> Inl e
            | Inr c4 \<Rightarrow>
                (let c5 = (emit [DeviceArm] c4)\<lparr>dev := h_arm h (dev c4)\<rparr>;
                     c6 = acquisition_loop_start ((emit [LoopStart] c5)\<lparr>loop_future := Some ()\<rparr>)
                 in Inr (c6\<lparr>armed := True\<rparr>))))"

definition roll_fps :: "('d, 'f, 'v) camera \<Rightarrow> rat" where
  "roll_fps c = cfg_roll_fps (config c)"

function roll_on ::
    "('d, 'f, 'v) hooks \<Rightarrow> manager option \<Rightarrow> rat option \<Rightarrow> ('d, 'f, 'v) camera
       \<Rightarrow> (error \<times> ('d, 'f, 'v) camera) + ('d, 'f, 'v) camera"
  and set_roll_fps ::
    "('d, 'f, 'v) hooks \<Rightarrow> manager option \<Rightarrow> rat \<Rightarrow> ('d, 'f, 'v) camera
       \<Rightarrow> (error \<times> ('d, 'f, 'v) camera) + ('d, 'f, 'v) camera"
where
  "roll_on h man fps c0 =
     (let c = c0\<lparr>stop_rolling_flag := False\<rparr> in
      if rolling c then
        (case fps of
           None \<Rightarrow> Inr c
         | Some f \<Rightarrow>
             if f = 0 then Inl (ZeroDivisionError, c)
             else if \<bar>exposure_time h c - 1 / f\<bar> < 1 / 100
             then Inr (emit [Log Info ''Already rolling with FPS''] c)
             else
               (case roll_off h (emit [Log Info ''Updating FPS''] c) of
                  Inl e \<Rightarrow> Inl e
                | Inr c1 \<Rightarrow> roll_on h man (Some f) c1))
      else
        (case (case fps of
                 None \<Rightarrow> Inr (roll_fps c, c)
               | Some f \<Rightarrow>
                   if f = 0 then Inr (roll_fps c, c)
                   else (case set_roll_fps h man f c of
                           Inl e \<Rightarrow> Inl e
                         | Inr c1 \<Rightarrow> Inr (f, c1))) of
           Inl e \<Rightarrow> Inl e
         | Inr (f, c1) \<Rightarrow>
             (let c2 = (if \<not> is_live c1 then live_on c1 else c1);
                  c3 = c2\<lparr>filename := None\<rparr>;
                  c4 = c3\<lparr>exposure_time_before_roll := Some (exposure_time h c3)\<rparr>
              in if f = 0 then Inl (ZeroDivisionError, c4)
                 else
                   (let c5 = set_exposure_time h (1 / f) c4;
                        c6 = c5\<lparr>exposure_number_before_roll := Some (exposure_number h c5)\<rparr>;
                        c7 = set_exposure_number h 100 c6
                    in case (if \<not> armed c7 then arm h man None None c7 else Inr c7) of
                         Inl e \<Rightarrow> Inl e
                       | Inr c8 \<Rightarrow>
                           (let c9 = c8\<lparr>rolling := True\<rparr>
                            in Inr ((emit [DoAcquireSet] c9)\<lparr>do_acquire := True\<rparr>))))))"
| "set_roll_fps h man v c =
     (let (fps, c1) =
            (if v > MAX_FPS c
             then (MAX_FPS c, emit [Log Warning ''Requested FPS is higher than the maximum allowed value''] c)
             else (v, c));
          c2 = c1\<lparr>config := (config c1)\<lparr>cfg_roll_fps := fps\<rparr>\<rparr>
      in if rolling c2 then roll_on h man (Some fps) c2 else Inr c2)"
  by pat_completeness auto
termination
proof -
  have stopped: "\<not> rolling c'" if "roll_off h c = Inr c'"
    for h :: "('d, 'f, 'v) hooks" and c c' :: "('d, 'f, 'v) camera"
    using that
    by (subst (asm) roll_off.simps)
       (auto simp: Let_def set_exposure_time_def set_exposure_number_def emit_def
             split: if_splits sum.splits option.splits)
  show ?thesis
    by (relation "measure (\<lambda>x. case x of
                      Inl (h, man, fps, c) \<Rightarrow> (if rolling c then 2 else 1)
                    | Inr (h, man, v, c) \<Rightarrow> (if rolling c then 3 else 0))")
       (auto simp: emit_def dest: stopped split: if_splits)
qed

declare roll_on.simps [simp del] set_roll_fps.simps [simp del]

section \<open>Scans and file names\<close>

definition VALID_CHAR :: string where
  "VALID_CHAR = ''abcdefghijklmnopqrstuvwxyzABCDEFGHIJKLMNOPQRSTUVWXYZ0123456789_-:''"

definition valid_name :: "string \<Rightarrow> bool" where
  "valid_name s = list_all (\<lambda>c. c \<in> set VALID_CHAR) s"

text \<open>
  The setters of \<open>ManagerBase.investigation\<close> and \<open>ManagerBase.experiment\<close>.
  \<open>path_exists\<close> is what \<open>os.path.exists\<close> answers in \<open>_check_path\<close>; the directories
  themselves are not modelled.
\<close>

definition set_investigation :: "string option \<Rightarrow> manager \<Rightarrow> (error \<times> manager) + manager" where
  "set_investigation v m =
     (case v of
        None \<Rightarrow> Inl (RuntimeError, m)
      | Some s \<Rightarrow>
          if m_running m then Inl (RuntimeError, m)
          else if \<not> valid_name s then Inl (RuntimeError, m)
          else
            (let m1 = m\<lparr>m_config := (m_config m)\<lparr>mc_investigation := Some s\<rparr>\<rparr>
             in Inr (m1\<lparr>m_config := (m_config m1)\<lparr>mc_experiment := None\<rparr>\<rparr>)))"

definition check_path :: "bool \<Rightarrow> manager \<Rightarrow> (error \<times> manager) + manager" where
  "check_path path_exists m =
     (case path m of
        Inl e \<Rightarrow> Inr (m\<lparr>m_log := m_log m @ [(Warning, ''Experiment or Investigation not set.'')]\<rparr>)
      | Inr p \<Rightarrow>
          (case base_path m of
             None \<Rightarrow> Inl (TypeError, m)
           | Some b \<Rightarrow>
               if path_exists then Inr (m\<lparr>m_log := m_log m @ [(Info, ''Path selected (exists).'')]\<rparr>)
               else Inr (m\<lparr>m_log := m_log m @ [(Info, ''Created path.'')]\<rparr>)))"

definition set_experiment ::
  "bool \<Rightarrow> string option \<Rightarrow> manager \<Rightarrow> (error \<times> manager) + manager" where
  "set_experiment path_exists v m =
     (case v of
        None \<Rightarrow> Inl (RuntimeError, m)
      | Some s \<Rightarrow>
          if m_running m then Inl (RuntimeError, m)
          else if investigation m = None then Inl (RuntimeError, m)
          else if \<not> valid_name s then Inl (RuntimeError, m)
          else check_path path_exists (m\<lparr>m_config := (m_config m)\<lparr>mc_experiment := Some s\<rparr>\<rparr>))"


definition next_prefix :: "manager \<Rightarrow> (error \<times> manager) + (string \<times> manager)" where
  "next_prefix m =
     (if \<not> m_running m then Inl (RuntimeError, m)
      else
        (case m_base_file_name m of
           None \<Rightarrow> Inl (AttributeError, m)
         | Some b \<Rightarrow>
             (case py_format b (m_counter m) of
                Inl e \<Rightarrow> Inl (e, m)
              | Inr prefix \<Rightarrow> Inr (prefix, m\<lparr>m_counter := m_counter m + 1\<rparr>))))"

definition get_counter :: "manager \<Rightarrow> int" where
  "get_counter m = m_counter m"

text \<open>
  \<open>CameraBase._build_filename\<close>. \<open>str.format\<close> raises no \<open>NameError\<close>, so the
  \<open>except NameError\<close> clause never applies and an exception of \<open>format\<close> leaves the method;
  \<open>os.path.join\<close> raises \<open>TypeError\<close> for a path that is \<open>None\<close>.
\<close>

definition file_prefix_c :: "('d, 'f, 'v) camera \<Rightarrow> string" where
  "file_prefix_c c = cfg_file_prefix (config c)"

definition save_path :: "('d, 'f, 'v) camera \<Rightarrow> string option" where
  "save_path c = cfg_save_path (config c)"

definition build_filename :: "('d, 'f, 'v) camera \<Rightarrow> string \<Rightarrow> string option \<Rightarrow> error + string" where
  "build_filename c prefix dir =
     (case py_format prefix (counter c) of
        Inl e \<Rightarrow> Inl e
      | Inr prefix1 \<Rightarrow>
          (case dir of
             None \<Rightarrow> Inl TypeError
           | Some d \<Rightarrow>
               (let full_file_prefix = path_join (path_join (BASE_PATH c) d) prefix1
                in if file_format c = ''hdf5'' then Inr (full_file_prefix @ ''.h5'')
                   else if file_format c = ''tiff'' then Inr (full_file_prefix @ ''.tif'')
                   else Inl RuntimeError)))"

section \<open>The acquisition loop\<close>

text \<open>
  One pass through the body of the \<open>while True\<close> loop once \<open>do_acquire.wait\<close> has
  returned \<open>True\<close>, with how the pass leaves the loop body: \<open>continue\<close> (or falling off
  its end), \<open>break\<close>, or an exception escaping from the \<open>except\<close> block.
\<close>

datatype control = Continue | Break | Died error

definition acquisition_pass ::
  "('d, 'f, 'v) hooks \<Rightarrow> ('d, 'f, 'v) camera \<Rightarrow> control \<times> ('d, 'f, 'v) camera" where
  "acquisition_pass h c =
     (let filename0 = filename c;
          c1 = (emit [DoAcquireClear] c)\<lparr>do_acquire := False\<rparr>;
          c2 = (if \<not> rolling c1 then emit [FileWriterOpen filename0] c1 else c1)
      in case trigger h c2 of
           (Raised, c3) \<Rightarrow>
             (let c4 = (emit [Log Exception ''Error in _trigger'', AcquireDoneSet] c3)
                         \<lparr>acquire_done := True\<rparr>
              in if \<not> rolling c4 then
                   (Break, emit [Log Warning ''File likely incomplete or corrupt because of an error in _trigger.'',
                                 FileWriterClose filename0] c4)
                 else
                   (case roll_off h c4 of
                      Inl (e, c5) \<Rightarrow> (Died e, c5)
                    | Inr c5 \<Rightarrow> (Break, c5)))
         | (Returned, c3) \<Rightarrow>
             (let c4 = (emit [AcquireDoneSet] c3)\<lparr>acquire_done := True\<rparr>
              in if rolling c4 then
                   (if stop_rolling_flag c4 then (Break, c4)
                    else (Continue, (emit [DoAcquireSet] c4)\<lparr>do_acquire := True\<rparr>))
                 else
                   (let c5 = emit [FileWriterClose filename0] c4
                    in if auto_armed c5 then (Break, c5)
                       else (Continue, (emit [DeviceRearm] c5)\<lparr>dev := h_rearm h (dev c5)\<rparr>))))"

text \<open>
  The loop from its first wait on. Each \<open>do_acquire.wait(.2)\<close> first sees what the
  other threads have written to the camera object since the last one: the head of
  \<open>others\<close>. The loop is observed
  for as many waits as \<open>others\<close> is long; \<open>None\<close> is a loop that is still waiting then.
\<close>

fun acquisition_loop_from ::
  "('d, 'f, 'v) hooks \<Rightarrow> (('d, 'f, 'v) camera \<Rightarrow> ('d, 'f, 'v) camera) list \<Rightarrow> ('d, 'f, 'v) camera
     \<Rightarrow> (control \<times> ('d, 'f, 'v) camera) option" where
  "acquisition_loop_from h [] c = None"
| "acquisition_loop_from h (other # others) c =
     (let c1 = other c in
      if \<not> do_acquire c1 then
        (if end_acquisition c1 then Some (Break, c1)
         else acquisition_loop_from h others c1)
      else
        (case acquisition_pass h c1 of
           (Continue, c2) \<Rightarrow> acquisition_loop_from h others c2
         | (Break, c2) \<Rightarrow> Some (Break, c2)
         | (Died e, c2) \<Rightarrow> Some (Died e, c2)))"

definition acquisition_loop ::
  "('d, 'f, 'v) hooks \<Rightarrow> (('d, 'f, 'v) camera \<Rightarrow> ('d, 'f, 'v) camera) list \<Rightarrow> ('d, 'f, 'v) camera
     \<Rightarrow> (control \<times> ('d, 'f, 'v) camera) option" where
  "acquisition_loop h others c = acquisition_loop_from h others (acquisition_loop_start c)"

section \<open>snap\<close>

definition in_scan ::
  "manager option \<Rightarrow> ('d, 'f, 'v) camera \<Rightarrow> (error \<times> ('d, 'f, 'v) camera) + (bool \<times> ('d, 'f, 'v) camera)" where
  "in_scan man c =
     (case man of
        None \<Rightarrow> Inr (False, emit [Log Error ''Could not connect to manager!''] c)
      | Some m \<Rightarrow>
          (case scan_path m of
             Inl e \<Rightarrow> Inl (e, c)
           | Inr p \<Rightarrow> Inr (p \<noteq> None, c)))"

text \<open>
  \<open>snap\<close>, as the calling thread runs it. \<open>acquire_done.wait()\<close> returns once the
  acquisition thread has set the event; what that thread writes in the meantime is
  \<open>acquisition_pass\<close>, not part of this function.
\<close>

definition snap ::
  "('d, 'f, 'v) hooks \<Rightarrow> manager option \<Rightarrow> rat option \<Rightarrow> int option \<Rightarrow> ('d, 'f, 'v) camera
     \<Rightarrow> (error \<times> ('d, 'f, 'v) camera \<times> manager option) + (('d, 'f, 'v) camera \<times> manager option)" where
  "snap h man exp_time exp_num c =
     (if rolling c then Inr (emit [Log Warning ''Cannot snap while in rolling mode.''] c, man)
      else
        (case man of
           None \<Rightarrow> Inr (emit [Log Error ''Not connected to manager!''] c, man)
         | Some m \<Rightarrow>
             (let c1 = c\<lparr>auto_armed := False\<rparr> in
              case (if \<not> armed c1 then arm h man exp_time exp_num (c1\<lparr>auto_armed := True\<rparr>)
                    else Inr c1) of
                Inl (e, c2) \<Rightarrow> Inl (e, c2, man)
              | Inr c2 \<Rightarrow>
                  (case in_scan man c2 of
                     Inl (e, c3) \<Rightarrow> Inl (e, c3, man)
                   | Inr (scanning, c3) \<Rightarrow>
                       (case (if scanning then
                                (case next_prefix m of
                                   Inl (e, m1) \<Rightarrow> Inl (e, c3, Some m1)
                                 | Inr (prefix, m1) \<Rightarrow>
                                     (case build_filename c3 prefix (scan_path_attr c3) of
                                        Inl e \<Rightarrow> Inl (e, c3, Some m1)
                                      | Inr fn \<Rightarrow> Inr (c3\<lparr>filename := Some fn\<rparr>, Some m1)))
                              else
                                (let c4 = set_counter (counter c3 + 1) c3 in
                                 case build_filename c4 (file_prefix_c c4) (save_path c4) of
                                   Inl e \<Rightarrow> Inl (e, c4, man)
                                 | Inr fn \<Rightarrow> Inr (c4\<lparr>filename := Some fn\<rparr>, man))) of
                          Inl e \<Rightarrow> Inl e
                        | Inr (c5, man1) \<Rightarrow>
                            (let c6 = (emit [Log Info ''Save path'', DoAcquireSet] c5)
                                        \<lparr>do_acquire := True\<rparr>;
                                 c7 = (emit [AcquireDoneWait, AcquireDoneClear] c6)
                                        \<lparr>acquire_done := False\<rparr>
                             in if auto_armed c7 then
                                  (case disarm h c7 of
                                     Inl (e, c8) \<Rightarrow> Inl (e, c8, man1)
                                   | Inr c8 \<Rightarrow> Inr (c8, man1))
                                else Inr (c7, man1)))))))"

section \<open>Initial states\<close>

text \<open>
  \<open>CameraBase.DEFAULT_CONFIG\<close>; the \<open>file_prefix\<close> entry comes from the driver base
  class and is an argument here. \<open>init_camera\<close> is the object \<open>__init__\<close> leaves, for a
  subclass that keeps the class constants of \<open>CameraBase\<close>.
\<close>

definition DEFAULT_CONFIG :: "string \<Rightarrow> config" where
  "DEFAULT_CONFIG prefix =
     \<lparr>cfg_do_save = True, cfg_file_format = ''hdf5'', cfg_do_broadcast = True,
      cfg_magnification = 1, cfg_counter = 0, cfg_save_mode = ''append'', cfg_roll_fps = 5,
      cfg_save_path = None, cfg_file_prefix = prefix,
      cfg_settings_exposure_time = None, cfg_settings_exposure_number = None\<rparr>"

definition init_camera :: "string \<Rightarrow> string \<Rightarrow> 'd \<Rightarrow> ('d, 'f, 'v) camera" where
  "init_camera nm prefix d =
     \<lparr>name = nm, BASE_PATH = [], MAX_FPS = 5, config = DEFAULT_CONFIG prefix, dev = d,
      loop_future = None, armed = False, rolling = False, auto_armed = False,
      filename = None, end_acquisition = False, scan_path_attr = None, abort_flag = False,
      exposure_time_before_roll = None, exposure_number_before_roll = None,
      metadata = Map.empty, localmeta = Map.empty, do_acquire = False, acquire_done = False,
      frame_queue_empty_flag = False, stop_rolling_flag = False, frame_queue = [],
      trace = [FrameStreamerOn]\<rparr>"

text \<open>\<open>ManagerBase.__init__\<close>, with the configuration it loads.\<close>

definition init_manager :: "mconfig \<Rightarrow> manager" where
  "init_manager cfg =
     \<lparr>m_config = cfg, m_running = False, m_scan_name = None, m_label = None,
      m_base_file_name = None, m_scan_number = None, m_counter = 0,
      m_scan_info = Map.empty, m_last_scan_info = mc_last_scan_info cfg, m_log = []\<rparr>"

text \<open>
  A detector for the examples: its state is the pair of exposure time and exposure
  number, its trigger reads out the given frames and ends as \<open>out\<close> says.
\<close>

definition pair_detector ::
  "outcome \<Rightarrow> ('f \<times> (string \<rightharpoonup> 'v)) list \<Rightarrow> (rat \<times> int, 'f, 'v) hooks" where
  "pair_detector out frames =
     \<lparr>h_trigger = (\<lambda>d. (out, frames, d)),
      h_arm = (\<lambda>d. d), h_disarm = (\<lambda>d. d), h_rearm = (\<lambda>d. d),
      h_get_exposure_time = fst, h_set_exposure_time = (\<lambda>v d. (v, snd d)),
      h_get_exposure_number = snd, h_set_exposure_number = (\<lambda>n d. (fst d, n)),
      h_join = None\<rparr>"

text \<open>The camera and the manager of the examples.\<close>

definition example_camera :: "(rat \<times> int, nat, int) camera" where
  "example_camera = init_camera ''Cam'' ''snap_{0}'' (1, 1)"

definition example_manager :: manager where
  "example_manager =
     init_manager \<lparr>mc_data_path = Some ''/data'', mc_experiment = Some ''run1'',
                    mc_investigation = Some ''speckle'', mc_last_scan_info = Map.empty\<rparr>"




text \<open>The state a call leaves behind, whether it returned or raised.\<close>

definition state_after :: "(error \<times> 's) + 's \<Rightarrow> 's" where
  "state_after r = (case r of Inl (e, s) \<Rightarrow> s | Inr s \<Rightarrow> s)"

text \<open>The example camera after \<open>roll_on(fps=4)\<close>.\<close>

definition rolling_camera :: "(rat \<times> int, nat, int) camera" where
  "rolling_camera =
     state_after (roll_on (pair_detector Returned []) (Some example_manager) (Some 4) example_camera)"


text \<open>
  The example camera armed, with a file name chosen and an acquisition requested: the
  state in which \<open>snap\<close> leaves the acquisition loop its request.
\<close>

definition armed_camera :: "(rat \<times> int, nat, int) camera" where
  "armed_camera =
     (state_after (arm (pair_detector Returned []) (Some example_manager) None None example_camera))
       \<lparr>filename := Some ''/data/snap_1.h5'', do_acquire := True\<rparr>"

text \<open>The events that mark a stop and a start of the device.\<close>

definition is_arm_cycle :: "event \<Rightarrow> bool" where
  "is_arm_cycle e = (e = DeviceArm \<or> e = DeviceDisarm)"

section \<open>Evaluation rules\<close>

lemmas lower_eval = lower_def lower_char_def

lemmas camera_eval =
  example_camera_def example_manager_def init_camera_def DEFAULT_CONFIG_def init_manager_def
  pair_detector_def emit_def Let_def state_after_def
  exposure_time_def exposure_number_def set_exposure_time_def set_exposure_number_def
  is_live_def live_on_def roll_fps_def counter_def set_counter_def
  scan_path_def path_def scan_name_def investigation_def experiment_m_def base_path_def
  path_join_def


section \<open>Facts about str.format\<close>















section \<open>The frame queue\<close>

text \<open>
  C4. \<open>enqueue_frame\<close> clears the queue-empty signal, empties both metadata bundles,
  and appends exactly one pair to the queue: the frame with the old \<open>metadata\<close>, in which
  the old \<open>localmeta\<close> updated with the readout meta is stored under the lower-cased
  device name. Nothing else changes. The next frame therefore carries only its own
  readout meta: no bundle is attached twice. (The mutex itself is not modelled: the
  function is one atomic step.)
\<close>

theorem enqueue_frame_swaps_bundles:
  "enqueue_frame frame meta c =
     c\<lparr>frame_queue_empty_flag := False, metadata := Map.empty, localmeta := Map.empty,
       frame_queue :=
         frame_queue c @ [(frame, (metadata c)(lower (name c) \<mapsto> localmeta c ++ meta))],
       trace := trace c @ [QueueEmptyClear]\<rparr>
   \<and> frame_queue (enqueue_frame frame_b meta_b (enqueue_frame frame meta c)) =
       frame_queue c @ [(frame, (metadata c)(lower (name c) \<mapsto> localmeta c ++ meta)),
                        (frame_b, [lower (name c) \<mapsto> meta_b])]"
  by (simp add: enqueue_frame_def emit_def Let_def)

theorem enqueue_frame_swaps_bundles_witness:
  "frame_queue
     (enqueue_frame (2::nat) [''t'' \<mapsto> (6::int)]
       (enqueue_frame 1 [''t'' \<mapsto> 5]
         ((init_camera ''Cam'' ''snap'' (1::rat, 1::int))
            \<lparr>localmeta := [''a'' \<mapsto> 1], metadata := [''motor'' \<mapsto> [''x'' \<mapsto> 3]]\<rparr>))) =
     [(1, [''motor'' \<mapsto> [''x'' \<mapsto> 3], ''cam'' \<mapsto> [''a'' \<mapsto> 1, ''t'' \<mapsto> 5]]),
      (2, [''cam'' \<mapsto> [''t'' \<mapsto> 6]])]"
  using enqueue_frame_swaps_bundles
          [where frame = "1::nat" and meta = "[''t'' \<mapsto> (5::int)]"
             and frame_b = "2::nat" and meta_b = "[''t'' \<mapsto> (6::int)]"
             and c = "(init_camera ''Cam'' ''snap'' (1::rat, 1::int))
                        \<lparr>localmeta := [''a'' \<mapsto> 1], metadata := [''motor'' \<mapsto> [''x'' \<mapsto> 3]]\<rparr>",
           THEN conjunct2]
  by (simp add: init_camera_def lower_eval)

section \<open>Validated settings\<close>

text \<open>
  C9. Assigning \<open>save_mode\<close> a value whose lower-cased form is none of \<open>ram\<close>,
  \<open>append\<close>, \<open>single\<close> raises and leaves the camera, its configuration included, as it
  was; a valid value is stored lower-cased (and passed to the file writer). So a
  \<open>save_mode\<close> in the set stays in the set whatever is assigned, and likewise
  \<open>file_format\<close> stays one of \<open>hdf5\<close>, \<open>tiff\<close>. The default configuration starts
  inside both sets.
\<close>

theorem save_mode_stays_valid:
  "(lower mode \<notin> set [''ram'', ''append'', ''single''] \<longrightarrow>
      set_save_mode mode c = Inl (RuntimeError, c))
   \<and> (lower mode \<in> set [''ram'', ''append'', ''single''] \<longrightarrow>
      set_save_mode mode c =
        Inr (c\<lparr>config := (config c)\<lparr>cfg_save_mode := lower mode\<rparr>,
               trace := trace c @ [FileWriterSetMode (lower mode)]\<rparr>))
   \<and> (save_mode c \<in> set [''ram'', ''append'', ''single''] \<longrightarrow>
      save_mode (state_after (set_save_mode mode c)) \<in> set [''ram'', ''append'', ''single''])
   \<and> (lower v \<notin> set [''h5'', ''hdf'', ''hdf5'', ''tif'', ''tiff''] \<longrightarrow>
      set_file_format v c = Inl (RuntimeError, c))
   \<and> (file_format c \<in> set [''hdf5'', ''tiff''] \<longrightarrow>
      file_format (state_after (set_file_format v c)) \<in> set [''hdf5'', ''tiff''])
   \<and> cfg_save_mode (DEFAULT_CONFIG prefix) \<in> set [''ram'', ''append'', ''single'']
   \<and> cfg_file_format (DEFAULT_CONFIG prefix) \<in> set [''hdf5'', ''tiff'']"
  by (simp add: set_save_mode_def set_file_format_def state_after_def save_mode_def
        file_format_def emit_def Let_def DEFAULT_CONFIG_def)

theorem save_mode_stays_valid_witness:
  "lower ''bogus'' \<notin> set [''ram'', ''append'', ''single'']
   \<and> set_save_mode ''bogus'' (init_camera ''cam'' ''snap'' (1::rat, 1::int) :: (rat \<times> int, nat, int) camera)
       = Inl (RuntimeError, init_camera ''cam'' ''snap'' (1, 1))
   \<and> save_mode (init_camera ''cam'' ''snap'' (1::rat, 1::int) :: (rat \<times> int, nat, int) camera)
       \<in> set [''ram'', ''append'', ''single'']
   \<and> save_mode (state_after (set_save_mode ''bogus''
         (init_camera ''cam'' ''snap'' (1::rat, 1::int) :: (rat \<times> int, nat, int) camera)))
       \<in> set [''ram'', ''append'', ''single'']
   \<and> lower ''Jpeg'' \<notin> set [''h5'', ''hdf'', ''hdf5'', ''tif'', ''tiff'']
   \<and> set_file_format ''Jpeg'' (init_camera ''cam'' ''snap'' (1::rat, 1::int) :: (rat \<times> int, nat, int) camera)
       = Inl (RuntimeError, init_camera ''cam'' ''snap'' (1, 1))
   \<and> file_format (init_camera ''cam'' ''snap'' (1::rat, 1::int) :: (rat \<times> int, nat, int) camera)
       \<in> set [''hdf5'', ''tiff'']
   \<and> file_format (state_after (set_file_format ''Jpeg''
         (init_camera ''cam'' ''snap'' (1::rat, 1::int) :: (rat \<times> int, nat, int) camera)))
       \<in> set [''hdf5'', ''tiff'']"
proof -
  let ?cam = "init_camera ''cam'' ''snap'' (1::rat, 1::int) :: (rat \<times> int, nat, int) camera"
  have a: "lower ''bogus'' \<notin> set [''ram'', ''append'', ''single'']"
    by (simp add: lower_eval)
  have b: "lower ''Jpeg'' \<notin> set [''h5'', ''hdf'', ''hdf5'', ''tif'', ''tiff'']"
    by (simp add: lower_eval)
  have c: "save_mode ?cam \<in> set [''ram'', ''append'', ''single'']"
    by (simp add: save_mode_def init_camera_def DEFAULT_CONFIG_def)
  have d: "file_format ?cam \<in> set [''hdf5'', ''tiff'']"
    by (simp add: file_format_def init_camera_def DEFAULT_CONFIG_def)
  show ?thesis
    using a b c d
      save_mode_stays_valid [where mode = "''bogus''" and v = "''Jpeg''" and c = ?cam]
    by blast
qed

section \<open>Investigation and experiment\<close>

text \<open>
  C10. Assigning a valid investigation name while no scan is running stores the name
  and resets the \<open>experiment\<close> entry to \<open>None\<close>; every other configuration entry and
  every other attribute of the manager keeps its value.
\<close>

theorem set_investigation_resets_experiment:
  "\<not> m_running m \<Longrightarrow> valid_name s \<Longrightarrow>
     set_investigation (Some s) m =
       Inr (m\<lparr>m_config := (m_config m)\<lparr>mc_investigation := Some s, mc_experiment := None\<rparr>\<rparr>)"
  by (simp add: set_investigation_def Let_def)

theorem set_investigation_resets_experiment_witness:
  "\<not> m_running (init_manager \<lparr>mc_data_path = Some ''/data'', mc_experiment = Some ''run1'',
                                mc_investigation = Some ''old'', mc_last_scan_info = Map.empty\<rparr>)
   \<and> valid_name ''speckle_2''
   \<and> set_investigation (Some ''speckle_2'')
        (init_manager \<lparr>mc_data_path = Some ''/data'', mc_experiment = Some ''run1'',
                        mc_investigation = Some ''old'', mc_last_scan_info = Map.empty\<rparr>) =
      Inr (init_manager \<lparr>mc_data_path = Some ''/data'', mc_experiment = None,
                          mc_investigation = Some ''speckle_2'', mc_last_scan_info = Map.empty\<rparr>)"
proof -
  let ?m = "init_manager \<lparr>mc_data_path = Some ''/data'', mc_experiment = Some ''run1'',
                          mc_investigation = Some ''old'', mc_last_scan_info = Map.empty\<rparr>"
  have a: "\<not> m_running ?m"
    by (simp add: init_manager_def)
  have b: "valid_name ''speckle_2''"
    by (simp add: valid_name_def VALID_CHAR_def)
  show ?thesis
    using a b set_investigation_resets_experiment [OF a b]
    by (simp add: init_manager_def)
qed

section \<open>Calls in the wrong state\<close>

text \<open>
  C3, as the code has it. \<open>arm\<close> on a rolling camera raises \<open>RuntimeError\<close> and leaves
  the camera as it was; assigning \<open>investigation\<close> or \<open>experiment\<close> while a scan is
  running raises \<open>RuntimeError\<close> and leaves the manager as it was, whatever the value.
  \<open>snap\<close> on a rolling camera raises nothing: it logs a warning and returns, with the
  camera otherwise unchanged and the manager untouched.
\<close>

theorem invariant_violations:
  "(rolling c \<longrightarrow> arm h man exp_time exp_num c = Inl (RuntimeError, c))
   \<and> (m_running m \<longrightarrow>
        set_investigation v m = Inl (RuntimeError, m)
        \<and> set_experiment path_exists v m = Inl (RuntimeError, m))
   \<and> (rolling c \<longrightarrow>
        snap h man exp_time exp_num c =
          Inr (emit [Log Warning ''Cannot snap while in rolling mode.''] c, man))"
  by (simp add: arm_def acquisition_loop_start_def set_investigation_def set_experiment_def snap_def split: option.splits)

theorem invariant_violations_witness:
  "rolling (example_camera\<lparr>rolling := True\<rparr>)
   \<and> arm (pair_detector Returned []) (Some example_manager) (Some 2) None
        (example_camera\<lparr>rolling := True\<rparr>)
       = Inl (RuntimeError, example_camera\<lparr>rolling := True\<rparr>)
   \<and> m_running (example_manager\<lparr>m_running := True\<rparr>)
   \<and> set_investigation (Some ''other'') (example_manager\<lparr>m_running := True\<rparr>)
       = Inl (RuntimeError, example_manager\<lparr>m_running := True\<rparr>)
   \<and> set_experiment True (Some ''run2'') (example_manager\<lparr>m_running := True\<rparr>)
       = Inl (RuntimeError, example_manager\<lparr>m_running := True\<rparr>)"
proof -
  have a: "rolling (example_camera\<lparr>rolling := True\<rparr>)"
    by simp
  have b: "m_running (example_manager\<lparr>m_running := True\<rparr>)"
    by simp
  show ?thesis
    using a b
      invariant_violations
        [where c = "example_camera\<lparr>rolling := True\<rparr>" and h = "pair_detector Returned []"
           and man = "Some example_manager" and exp_time = "Some 2" and exp_num = None
           and m = "example_manager\<lparr>m_running := True\<rparr>" and v = "Some ''other''"
           and path_exists = True]
      invariant_violations
        [where c = "example_camera\<lparr>rolling := True\<rparr>" and h = "pair_detector Returned []"
           and man = "Some example_manager" and exp_time = "Some 2" and exp_num = None
           and m = "example_manager\<lparr>m_running := True\<rparr>" and v = "Some ''run2''"
           and path_exists = True]
    by blast
qed

text \<open>
  The claim fails for \<open>snap\<close>: on the camera that \<open>roll_on\<close> has just set rolling,
  \<open>snap\<close> returns normally.
\<close>

theorem snap_while_rolling_counterexample:
  "rolling (state_after (roll_on (pair_detector Returned []) (Some example_manager) (Some 4)
                           example_camera))
   \<and> snap (pair_detector Returned []) (Some example_manager) None None
        (state_after (roll_on (pair_detector Returned []) (Some example_manager) (Some 4)
                        example_camera))
       = Inr (emit [Log Warning ''Cannot snap while in rolling mode.'']
                (state_after (roll_on (pair_detector Returned []) (Some example_manager) (Some 4)
                                example_camera)),
              Some example_manager)"
proof -
  have a: "rolling (state_after (roll_on (pair_detector Returned []) (Some example_manager)
                                   (Some 4) example_camera))"
    by (simp add: roll_on.simps set_roll_fps.simps arm_def acquisition_loop_start_def camera_eval)
  then show ?thesis
    by (simp add: snap_def)
qed

section \<open>File names\<close>



section \<open>Numbered prefixes in a scan\<close>














section \<open>Arming and disarming\<close>

text \<open>
  C5, as the code has it. On a camera that is neither armed nor rolling, with a manager
  that answers (or none), \<open>arm(exp_time, exp_num)\<close> returns with the camera armed, and
  \<open>disarm()\<close> right after it returns with the camera unarmed and not rolling again; file
  name, counter, save mode, file format, metadata and frame queue are what they were.
  The camera is not back in its state before \<open>arm\<close>: the device keeps each exposure
  override that differed from its setting, \<open>end_acquisition\<close> is left set,
  \<open>acquire_done\<close> and \<open>do_acquire\<close> are cleared, the abort flag is clear, cleared by
  the acquisition loop that \<open>arm\<close> starts and \<open>disarm\<close> joins (it may have been set
  before, by \<open>abort()\<close> on the idle camera), the scan path is the manager's and the loop
  future stays. A second \<open>disarm()\<close> raises nothing and changes nothing but for a
  second call of the device's \<open>_disarm\<close> hook (empty in \<open>CameraBase\<close>) and the record of
  the two calls in the trace.
\<close>

theorem arm_disarm_round_trip:
  "\<not> rolling c \<and> \<not> armed c \<and> h_join h = None
   \<and> ((man = None \<and> sp = None) \<or> (\<exists>m. man = Some m \<and> scan_path m = Inr sp)) \<longrightarrow>
     (\<exists>c1 c2. arm h man exp_time exp_num c = Inr c1 \<and> armed c1
        \<and> disarm h c1 = Inr c2
        \<and> \<not> armed c2 \<and> \<not> rolling c2
        \<and> end_acquisition c2 \<and> \<not> acquire_done c2 \<and> \<not> do_acquire c2
        \<and> loop_future c2 = Some () \<and> scan_path_attr c2 = sp
        \<and> dev c2 =
            h_disarm h (h_arm h
              (let d1 = (case exp_time of
                           None \<Rightarrow> dev c
                         | Some t \<Rightarrow>
                             if t \<noteq> h_get_exposure_time h (dev c)
                             then h_set_exposure_time h t (dev c) else dev c)
               in case exp_num of
                    None \<Rightarrow> d1
                  | Some n \<Rightarrow>
                      if n \<noteq> h_get_exposure_number h d1
                      then h_set_exposure_number h n d1 else d1))
        \<and> filename c2 = filename c \<and> counter c2 = counter c
        \<and> save_mode c2 = save_mode c \<and> file_format c2 = file_format c
        \<and> auto_armed c2 = auto_armed c \<and> \<not> abort_flag c2
        \<and> stop_rolling_flag c2 = stop_rolling_flag c
        \<and> metadata c2 = metadata c \<and> localmeta c2 = localmeta c
        \<and> frame_queue c2 = frame_queue c
        \<and> disarm h c2 =
            Inr (c2\<lparr>dev := h_disarm h (dev c2), trace := trace c2 @ [LoopJoin, DeviceDisarm]\<rparr>))"
proof (intro impI)
  assume a: "\<not> rolling c \<and> \<not> armed c \<and> h_join h = None
   \<and> ((man = None \<and> sp = None) \<or> (\<exists>m. man = Some m \<and> scan_path m = Inr sp))"
  then show "\<exists>c1 c2. arm h man exp_time exp_num c = Inr c1 \<and> armed c1
        \<and> disarm h c1 = Inr c2
        \<and> \<not> armed c2 \<and> \<not> rolling c2
        \<and> end_acquisition c2 \<and> \<not> acquire_done c2 \<and> \<not> do_acquire c2
        \<and> loop_future c2 = Some () \<and> scan_path_attr c2 = sp
        \<and> dev c2 =
            h_disarm h (h_arm h
              (let d1 = (case exp_time of
                           None \<Rightarrow> dev c
                         | Some t \<Rightarrow>
                             if t \<noteq> h_get_exposure_time h (dev c)
                             then h_set_exposure_time h t (dev c) else dev c)
               in case exp_num of
                    None \<Rightarrow> d1
                  | Some n \<Rightarrow>
                      if n \<noteq> h_get_exposure_number h d1
                      then h_set_exposure_number h n d1 else d1))
        \<and> filename c2 = filename c \<and> counter c2 = counter c
        \<and> save_mode c2 = save_mode c \<and> file_format c2 = file_format c
        \<and> auto_armed c2 = auto_armed c \<and> \<not> abort_flag c2
        \<and> stop_rolling_flag c2 = stop_rolling_flag c
        \<and> metadata c2 = metadata c \<and> localmeta c2 = localmeta c
        \<and> frame_queue c2 = frame_queue c
        \<and> disarm h c2 =
            Inr (c2\<lparr>dev := h_disarm h (dev c2), trace := trace c2 @ [LoopJoin, DeviceDisarm]\<rparr>)"
    by (cases exp_time; cases exp_num; cases man)
       (auto simp: arm_def acquisition_loop_start_def disarm.simps join_loop_def Let_def emit_def
          set_exposure_time_def set_exposure_number_def exposure_time_def exposure_number_def
          counter_def save_mode_def file_format_def)
qed


theorem arm_disarm_round_trip_witness:
  "\<not> rolling example_camera \<and> \<not> armed example_camera
   \<and> h_join (pair_detector Returned [] :: (rat \<times> int, nat, int) hooks) = None
   \<and> scan_path example_manager = Inr None
   \<and> armed (state_after (disarm (pair_detector Returned [])
        (state_after (arm (pair_detector Returned []) (Some example_manager) (Some 2) (Some 3)
                        example_camera)))) = False
   \<and> dev (state_after (disarm (pair_detector Returned [])
        (state_after (arm (pair_detector Returned []) (Some example_manager) (Some 2) (Some 3)
                        example_camera)))) = (2, 3)
   \<and> end_acquisition (state_after (disarm (pair_detector Returned [])
        (state_after (arm (pair_detector Returned []) (Some example_manager) (Some 2) (Some 3)
                        example_camera)))) = True
   \<and> abort_flag (state_after (disarm (pair_detector Returned [])
        (state_after (arm (pair_detector Returned []) (Some example_manager) (Some 2) (Some 3)
                        example_camera)))) = False"
proof -
  let ?h = "pair_detector Returned [] :: (rat \<times> int, nat, int) hooks"
  have a: "\<not> rolling example_camera" "\<not> armed example_camera" "h_join ?h = None"
    "scan_path example_manager = Inr None"
    by (simp_all add: camera_eval)
  have d: "dev example_camera = (1, 1)"
    by (simp add: camera_eval)
  from a arm_disarm_round_trip
         [where c = example_camera and h = ?h and man = "Some example_manager" and sp = None
            and exp_time = "Some 2" and exp_num = "Some 3"]
  obtain c1 c2 where "arm ?h (Some example_manager) (Some 2) (Some 3) example_camera = Inr c1"
    "disarm ?h c1 = Inr c2" "\<not> armed c2" "end_acquisition c2" "\<not> abort_flag c2"
    "dev c2 = h_disarm ?h (h_arm ?h
              (let d1 = (if 2 \<noteq> h_get_exposure_time ?h (dev example_camera)
                         then h_set_exposure_time ?h 2 (dev example_camera) else dev example_camera)
               in if 3 \<noteq> h_get_exposure_number ?h d1
                  then h_set_exposure_number ?h 3 d1 else d1))"
    by auto
  with a d show ?thesis
    by (simp add: state_after_def pair_detector_def)
qed

text \<open>
  The claim fails as stated: after \<open>arm(exp_time=2)\<close> and \<open>disarm()\<close> on the example
  camera, whose exposure time was 1 and whose \<open>end_acquisition\<close> was clear, the exposure
  time is 2 and \<open>end_acquisition\<close> is set.
\<close>

theorem arm_disarm_counterexample:
  "\<not> rolling example_camera \<and> \<not> armed example_camera
   \<and> \<not> end_acquisition example_camera
   \<and> exposure_time (pair_detector Returned []) example_camera = 1
   \<and> \<not> isl (arm (pair_detector Returned []) (Some example_manager) (Some 2) None example_camera)
   \<and> \<not> isl (disarm (pair_detector Returned [])
        (state_after (arm (pair_detector Returned []) (Some example_manager) (Some 2) None
                        example_camera)))
   \<and> end_acquisition (state_after (disarm (pair_detector Returned [])
        (state_after (arm (pair_detector Returned []) (Some example_manager) (Some 2) None
                        example_camera))))
   \<and> exposure_time (pair_detector Returned []) (state_after (disarm (pair_detector Returned [])
        (state_after (arm (pair_detector Returned []) (Some example_manager) (Some 2) None
                        example_camera)))) = 2"
  by (simp add: arm_def acquisition_loop_start_def disarm.simps join_loop_def camera_eval)

section \<open>Rolling\<close>

lemma roll_off_rolling:
  assumes "rolling c" "h_join h = None"
  shows "\<exists>c1 evs. roll_off h c = Inr c1 \<and> \<not> rolling c1 \<and> \<not> armed c1
           \<and> MAX_FPS c1 = MAX_FPS c
           \<and> trace c1 = trace c @ evs \<and> filter is_arm_cycle evs = [DeviceDisarm]"
  using assms
  by (subst roll_off.simps, subst disarm.simps)
     (auto simp: join_loop_def Let_def emit_def set_exposure_time_def set_exposure_number_def
        is_arm_cycle_def split: option.splits)




lemma rolling_camera_facts:
  "rolling rolling_camera" "\<not> stop_rolling_flag rolling_camera"
  "exposure_time (pair_detector Returned []) rolling_camera = 1 / 4"
  "dev rolling_camera = (1 / 4, 100)"
  "exposure_time_before_roll rolling_camera = Some 1"
  "exposure_number_before_roll rolling_camera = Some 1"
  by (simp_all add: rolling_camera_def roll_on.simps set_roll_fps.simps arm_def acquisition_loop_start_def camera_eval)



section \<open>One pass of the acquisition loop\<close>

lemma enqueue_frames_facts:
  "trace (foldl (\<lambda>c' (f, m). enqueue_frame f m c') c frames) =
     trace c @ replicate (length frames) QueueEmptyClear
   \<and> rolling (foldl (\<lambda>c' (f, m). enqueue_frame f m c') c frames) = rolling c
   \<and> stop_rolling_flag (foldl (\<lambda>c' (f, m). enqueue_frame f m c') c frames) = stop_rolling_flag c
   \<and> auto_armed (foldl (\<lambda>c' (f, m). enqueue_frame f m c') c frames) = auto_armed c
   \<and> dev (foldl (\<lambda>c' (f, m). enqueue_frame f m c') c frames) = dev c"
proof (induction frames arbitrary: c)
  case Nil
  show ?case by simp
next
  case (Cons fm frames)
  obtain f m where fm: "fm = (f, m)"
    by (cases fm)
  have step: "trace (enqueue_frame f m c) = trace c @ [QueueEmptyClear]"
    "rolling (enqueue_frame f m c) = rolling c"
    "stop_rolling_flag (enqueue_frame f m c) = stop_rolling_flag c"
    "auto_armed (enqueue_frame f m c) = auto_armed c"
    "dev (enqueue_frame f m c) = dev c"
    by (simp_all add: enqueue_frame_def emit_def Let_def)
  show ?case
    using Cons.IH [of "enqueue_frame f m c"] step
    by (simp add: fm replicate_append_same)
qed

lemma trigger_facts:
  assumes "h_trigger h (dev c) = (out, frames, d)"
  shows "\<exists>c'. trigger h c = (out, c')
           \<and> trace c' = trace c @ replicate (length frames) QueueEmptyClear @ [TriggerExit out]
           \<and> rolling c' = rolling c \<and> stop_rolling_flag c' = stop_rolling_flag c
           \<and> auto_armed c' = auto_armed c \<and> dev c' = d"
  using assms enqueue_frames_facts [of "c\<lparr>dev := d\<rparr>" frames]
  by (simp add: trigger_def emit_def)

lemma roll_off_events:
  "\<exists>evs. trace (state_after (roll_off h c)) = trace c @ evs
         \<and> AcquireDoneSet \<notin> set evs \<and> (\<forall>out. TriggerExit out \<notin> set evs)
         \<and> (\<forall>fn. FileWriterClose fn \<notin> set evs)
         \<and> acquire_done (state_after (roll_off h c)) = acquire_done c"
  by (subst roll_off.simps, subst disarm.simps, subst roll_off.simps, subst disarm.simps)
     (auto simp: state_after_def join_loop_def Let_def emit_def set_exposure_time_def
        set_exposure_number_def split: option.splits)


lemma pass_unfold:
  assumes ht: "h_trigger h (dev c) = (out, frames, d)"
  shows "\<exists>c3. trace c3 = trace c @ [DoAcquireClear]
                   @ (if rolling c then [] else [FileWriterOpen (filename c)])
                   @ replicate (length frames) QueueEmptyClear @ [TriggerExit out]
           \<and> rolling c3 = rolling c \<and> stop_rolling_flag c3 = stop_rolling_flag c
           \<and> auto_armed c3 = auto_armed c
           \<and> acquisition_pass h c =
               (case out of
                  Raised \<Rightarrow>
                    (let c4 = (emit [Log Exception ''Error in _trigger'', AcquireDoneSet] c3)
                                \<lparr>acquire_done := True\<rparr>
                     in if \<not> rolling c4 then
                          (Break, emit [Log Warning ''File likely incomplete or corrupt because of an error in _trigger.'',
                                        FileWriterClose (filename c)] c4)
                        else
                          (case roll_off h c4 of
                             Inl (e, c5) \<Rightarrow> (Died e, c5)
                           | Inr c5 \<Rightarrow> (Break, c5)))
                | Returned \<Rightarrow>
                    (let c4 = (emit [AcquireDoneSet] c3)\<lparr>acquire_done := True\<rparr>
                     in if rolling c4 then
                          (if stop_rolling_flag c4 then (Break, c4)
                           else (Continue, (emit [DoAcquireSet] c4)\<lparr>do_acquire := True\<rparr>))
                        else
                          (let c5 = emit [FileWriterClose (filename c)] c4
                           in if auto_armed c5 then (Break, c5)
                              else (Continue, (emit [DeviceRearm] c5)\<lparr>dev := h_rearm h (dev c5)\<rparr>))))"
proof -
  define c2 where "c2 = (if \<not> rolling ((emit [DoAcquireClear] c)\<lparr>do_acquire := False\<rparr>)
                         then emit [FileWriterOpen (filename c)]
                                ((emit [DoAcquireClear] c)\<lparr>do_acquire := False\<rparr>)
                         else (emit [DoAcquireClear] c)\<lparr>do_acquire := False\<rparr>)"
  have c2: "dev c2 = dev c" "rolling c2 = rolling c" "stop_rolling_flag c2 = stop_rolling_flag c"
    "auto_armed c2 = auto_armed c"
    "trace c2 = trace c @ [DoAcquireClear] @ (if rolling c then [] else [FileWriterOpen (filename c)])"
    by (simp_all add: c2_def emit_def)
  from ht c2(1) trigger_facts [of h c2 out frames d]
  obtain c3 where c3: "trigger h c2 = (out, c3)"
    "trace c3 = trace c2 @ replicate (length frames) QueueEmptyClear @ [TriggerExit out]"
    "rolling c3 = rolling c2" "stop_rolling_flag c3 = stop_rolling_flag c2"
    "auto_armed c3 = auto_armed c2"
    by auto
  have "acquisition_pass h c =
      (case trigger h c2 of
           (Raised, c3) \<Rightarrow>
             (let c4 = (emit [Log Exception ''Error in _trigger'', AcquireDoneSet] c3)
                         \<lparr>acquire_done := True\<rparr>
              in if \<not> rolling c4 then
                   (Break, emit [Log Warning ''File likely incomplete or corrupt because of an error in _trigger.'',
                                 FileWriterClose (filename c)] c4)
                 else
                   (case roll_off h c4 of
                      Inl (e, c5) \<Rightarrow> (Died e, c5)
                    | Inr c5 \<Rightarrow> (Break, c5)))
         | (Returned, c3) \<Rightarrow>
             (let c4 = (emit [AcquireDoneSet] c3)\<lparr>acquire_done := True\<rparr>
              in if rolling c4 then
                   (if stop_rolling_flag c4 then (Break, c4)
                    else (Continue, (emit [DoAcquireSet] c4)\<lparr>do_acquire := True\<rparr>))
                 else
                   (let c5 = emit [FileWriterClose (filename c)] c4
                    in if auto_armed c5 then (Break, c5)
                       else (Continue, (emit [DeviceRearm] c5)\<lparr>dev := h_rearm h (dev c5)\<rparr>))))"
    by (simp only: acquisition_pass_def Let_def c2_def)
  with c3(1) have "acquisition_pass h c =
               (case out of
                  Raised \<Rightarrow>
                    (let c4 = (emit [Log Exception ''Error in _trigger'', AcquireDoneSet] c3)
                                \<lparr>acquire_done := True\<rparr>
                     in if \<not> rolling c4 then
                          (Break, emit [Log Warning ''File likely incomplete or corrupt because of an error in _trigger.'',
                                        FileWriterClose (filename c)] c4)
                        else
                          (case roll_off h c4 of
                             Inl (e, c5) \<Rightarrow> (Died e, c5)
                           | Inr c5 \<Rightarrow> (Break, c5)))
                | Returned \<Rightarrow>
                    (let c4 = (emit [AcquireDoneSet] c3)\<lparr>acquire_done := True\<rparr>
                     in if rolling c4 then
                          (if stop_rolling_flag c4 then (Break, c4)
                           else (Continue, (emit [DoAcquireSet] c4)\<lparr>do_acquire := True\<rparr>))
                        else
                          (let c5 = emit [FileWriterClose (filename c)] c4
                           in if auto_armed c5 then (Break, c5)
                              else (Continue, (emit [DeviceRearm] c5)\<lparr>dev := h_rearm h (dev c5)\<rparr>))))"
    by (cases out) simp_all
  with c2 c3 show ?thesis
    by (intro exI [of _ c3]) simp
qed

lemma pass_raised:
  assumes ht: "h_trigger h (dev c) = (Raised, frames, d)"
  shows "\<exists>c4. rolling c4 = rolling c \<and> acquire_done c4
           \<and> trace c4 = trace c @ [DoAcquireClear]
                 @ (if rolling c then [] else [FileWriterOpen (filename c)])
                 @ replicate (length frames) QueueEmptyClear
                 @ [TriggerExit Raised, Log Exception ''Error in _trigger'', AcquireDoneSet]
           \<and> acquisition_pass h c =
               (if \<not> rolling c then
                  (Break, emit [Log Warning ''File likely incomplete or corrupt because of an error in _trigger.'',
                                FileWriterClose (filename c)] c4)
                else
                  (case roll_off h c4 of
                     Inl (e, c5) \<Rightarrow> (Died e, c5)
                   | Inr c5 \<Rightarrow> (Break, c5)))"
proof -
  from pass_unfold [OF ht] obtain c3 where c3:
    "trace c3 = trace c @ [DoAcquireClear]
                   @ (if rolling c then [] else [FileWriterOpen (filename c)])
                   @ replicate (length frames) QueueEmptyClear @ [TriggerExit Raised]"
    "rolling c3 = rolling c"
    "acquisition_pass h c =
       (let c4 = (emit [Log Exception ''Error in _trigger'', AcquireDoneSet] c3)
                   \<lparr>acquire_done := True\<rparr>
        in if \<not> rolling c4 then
             (Break, emit [Log Warning ''File likely incomplete or corrupt because of an error in _trigger.'',
                           FileWriterClose (filename c)] c4)
           else
             (case roll_off h c4 of
                Inl (e, c5) \<Rightarrow> (Died e, c5)
              | Inr c5 \<Rightarrow> (Break, c5)))"
    by auto
  define c4 where "c4 = (emit [Log Exception ''Error in _trigger'', AcquireDoneSet] c3)
                   \<lparr>acquire_done := True\<rparr>"
  have "rolling c4 = rolling c" "acquire_done c4"
    "trace c4 = trace c3 @ [Log Exception ''Error in _trigger'', AcquireDoneSet]"
    using c3(2) by (simp_all add: c4_def emit_def)
  with c3 show ?thesis
    by (intro exI [of _ c4]) (simp add: Let_def c4_def [symmetric])
qed


lemma pass_events:
  assumes ht: "h_trigger h (dev c) = (out, frames, d)"
  shows "\<exists>post. trace (snd (acquisition_pass h c)) =
          trace c @ [DoAcquireClear] @ (if rolling c then [] else [FileWriterOpen (filename c)])
            @ replicate (length frames) QueueEmptyClear @ [TriggerExit out]
            @ (if out = Raised then [Log Exception ''Error in _trigger''] else [])
            @ [AcquireDoneSet] @ post
        \<and> AcquireDoneSet \<notin> set post \<and> (\<forall>out'. TriggerExit out' \<notin> set post)
        \<and> (\<not> rolling c \<longrightarrow> count_list post (FileWriterClose (filename c)) = 1)
        \<and> (rolling c \<longrightarrow> (\<forall>fn. FileWriterClose fn \<notin> set post))
        \<and> acquire_done (snd (acquisition_pass h c))"
proof (cases out)
  case Returned
  with pass_unfold [OF ht] show ?thesis
    by (auto simp: Let_def emit_def)
next
  case Raised
  with ht pass_raised [of h c frames d] obtain c4 where c4: "rolling c4 = rolling c"
    "acquire_done c4"
    "trace c4 = trace c @ [DoAcquireClear]
                 @ (if rolling c then [] else [FileWriterOpen (filename c)])
                 @ replicate (length frames) QueueEmptyClear
                 @ [TriggerExit Raised, Log Exception ''Error in _trigger'', AcquireDoneSet]"
    "acquisition_pass h c =
               (if \<not> rolling c then
                  (Break, emit [Log Warning ''File likely incomplete or corrupt because of an error in _trigger.'',
                                FileWriterClose (filename c)] c4)
                else
                  (case roll_off h c4 of
                     Inl (e, c5) \<Rightarrow> (Died e, c5)
                   | Inr c5 \<Rightarrow> (Break, c5)))"
    by auto
  show ?thesis
  proof (cases "rolling c")
    case False
    with Raised c4 show ?thesis
      by (simp add: emit_def)
  next
    case True
    with c4(4) have snd_pass: "snd (acquisition_pass h c) = state_after (roll_off h c4)"
      by (simp add: state_after_def split: sum.splits prod.splits)
    from roll_off_events [of h c4] obtain evs where
      "trace (state_after (roll_off h c4)) = trace c4 @ evs" "AcquireDoneSet \<notin> set evs"
      "\<forall>out. TriggerExit out \<notin> set evs" "\<forall>fn. FileWriterClose fn \<notin> set evs"
      "acquire_done (state_after (roll_off h c4)) = acquire_done c4"
      by blast
    with True Raised snd_pass c4 show ?thesis
      by (intro exI [of _ evs]) simp
  qed
qed

lemma armed_camera_facts:
  "\<not> rolling armed_camera" "armed armed_camera" "do_acquire armed_camera"
  "dev armed_camera = (1, 1)" "filename armed_camera = Some ''/data/snap_1.h5''"
  "\<not> auto_armed armed_camera"
  by (simp_all add: armed_camera_def arm_def acquisition_loop_start_def camera_eval)

section \<open>The acquisition-done signal\<close>

text \<open>
  C1. In every pass of the acquisition loop, whatever \<open>_trigger\<close> does (return or raise,
  after handing over any frames), the events of the pass are: \<open>do_acquire.clear()\<close>, the
  opening of the file when not rolling, the frames put on the queue, the exit of
  \<open>_trigger\<close>, the exception log if it raised, then \<open>acquire_done.set()\<close>, then the rest
  of the pass. \<open>acquire_done.set()\<close> happens once, after the exit of \<open>_trigger\<close> and never
  before it; when not rolling, \<open>file_writer.close\<close> for the file name read at the start of
  the pass is called exactly once, after \<open>acquire_done.set()\<close>; when rolling, the pass
  closes no file. The signal is still set when the pass ends.
\<close>

theorem acquire_done_between_trigger_and_close:
  "h_trigger h (dev c) = (out, frames, d) \<longrightarrow>
     (\<exists>post. trace (snd (acquisition_pass h c)) =
          trace c @ [DoAcquireClear] @ (if rolling c then [] else [FileWriterOpen (filename c)])
            @ replicate (length frames) QueueEmptyClear @ [TriggerExit out]
            @ (if out = Raised then [Log Exception ''Error in _trigger''] else [])
            @ [AcquireDoneSet] @ post
        \<and> AcquireDoneSet \<notin> set post \<and> (\<forall>out'. TriggerExit out' \<notin> set post)
        \<and> (\<not> rolling c \<longrightarrow> count_list post (FileWriterClose (filename c)) = 1)
        \<and> (rolling c \<longrightarrow> (\<forall>fn. FileWriterClose fn \<notin> set post))
        \<and> acquire_done (snd (acquisition_pass h c)))"
  using pass_events [of h c out frames d] by blast

theorem acquire_done_between_trigger_and_close_witness:
  "h_trigger (pair_detector Returned [(7, [''t'' \<mapsto> 5])] :: (rat \<times> int, nat, int) hooks)
      (dev armed_camera) = (Returned, [(7, [''t'' \<mapsto> 5])], (1, 1))
   \<and> \<not> rolling armed_camera
   \<and> acquire_done (snd (acquisition_pass (pair_detector Returned [(7, [''t'' \<mapsto> 5])]) armed_camera))
   \<and> drop (length (trace armed_camera))
        (trace (snd (acquisition_pass (pair_detector Returned [(7, [''t'' \<mapsto> 5])]) armed_camera))) =
       [DoAcquireClear, FileWriterOpen (Some ''/data/snap_1.h5''), QueueEmptyClear,
        TriggerExit Returned, AcquireDoneSet, FileWriterClose (Some ''/data/snap_1.h5''),
        DeviceRearm]"
proof -
  let ?h = "pair_detector Returned [(7, [''t'' \<mapsto> 5])] :: (rat \<times> int, nat, int) hooks"
  have ht: "h_trigger ?h (dev armed_camera) = (Returned, [(7, [''t'' \<mapsto> 5])], (1, 1))"
    by (simp add: pair_detector_def armed_camera_facts)
  have ad: "acquire_done (snd (acquisition_pass ?h armed_camera))"
    using acquire_done_between_trigger_and_close
            [where h = ?h and c = armed_camera and out = Returned
               and frames = "[(7, [''t'' \<mapsto> 5])]" and d = "(1, 1)", THEN mp, OF ht]
    by (elim exE conjE)
  have tr: "trace (snd (acquisition_pass ?h armed_camera)) =
          trace armed_camera @ [DoAcquireClear, FileWriterOpen (Some ''/data/snap_1.h5''),
            QueueEmptyClear, TriggerExit Returned, AcquireDoneSet,
            FileWriterClose (Some ''/data/snap_1.h5''), DeviceRearm]"
    using armed_camera_facts
    by (simp add: acquisition_pass_def trigger_def enqueue_frame_def pair_detector_def emit_def
          Let_def)
  have dr: "drop (length (trace armed_camera)) (trace (snd (acquisition_pass ?h armed_camera))) =
       [DoAcquireClear, FileWriterOpen (Some ''/data/snap_1.h5''), QueueEmptyClear,
        TriggerExit Returned, AcquireDoneSet, FileWriterClose (Some ''/data/snap_1.h5''),
        DeviceRearm]"
    by (simp only: tr append_eq_conv_conj drop_append) simp
  from ht armed_camera_facts(1) ad dr show ?thesis
    by (intro conjI)
qed

section \<open>A failing trigger\<close>

text \<open>
  C2. In every pass of the acquisition loop in which \<open>_trigger\<close> raises: the pass does not
  go on to another iteration; the exception is logged and \<open>acquire_done\<close> is set, and it
  is still set when the pass ends; when not rolling, the pass then logs a warning, closes
  the file whose name it read at its start, and breaks out of the loop; when rolling, it
  calls \<open>roll_off\<close> and breaks out, unless \<open>roll_off\<close> raises, which ends the loop with
  that exception; \<open>_trigger\<close> is called once in the pass; if rolling and the join in
  \<open>roll_off\<close> raises nothing, the pass breaks out with the camera neither rolling nor
  armed; and the loop that finds the request at a wait returns with the result of this
  one pass.
\<close>

theorem trigger_failure_ends_loop:
  "h_trigger h (dev c) = (Raised, frames, d) \<longrightarrow>
     fst (acquisition_pass h c) \<noteq> Continue
     \<and> acquire_done (snd (acquisition_pass h c))
     \<and> (\<exists>c4. rolling c4 = rolling c \<and> acquire_done c4
           \<and> trace c4 = trace c @ [DoAcquireClear]
                 @ (if rolling c then [] else [FileWriterOpen (filename c)])
                 @ replicate (length frames) QueueEmptyClear
                 @ [TriggerExit Raised, Log Exception ''Error in _trigger'', AcquireDoneSet]
           \<and> acquisition_pass h c =
               (if \<not> rolling c then
                  (Break, emit [Log Warning ''File likely incomplete or corrupt because of an error in _trigger.'',
                                FileWriterClose (filename c)] c4)
                else
                  (case roll_off h c4 of
                     Inl (e, c5) \<Rightarrow> (Died e, c5)
                   | Inr c5 \<Rightarrow> (Break, c5))))
     \<and> (\<forall>out'. count_list (drop (length (trace c)) (trace (snd (acquisition_pass h c))))
                  (TriggerExit out') = (if out' = Raised then 1 else 0))
     \<and> (rolling c \<and> h_join h = None \<longrightarrow>
           fst (acquisition_pass h c) = Break
           \<and> \<not> rolling (snd (acquisition_pass h c)) \<and> \<not> armed (snd (acquisition_pass h c)))
     \<and> (\<forall>other c0 others. other c0 = c \<and> do_acquire c \<longrightarrow>
           acquisition_loop_from h (other # others) c0 = Some (acquisition_pass h c))"
proof (intro impI)
  assume ht: "h_trigger h (dev c) = (Raised, frames, d)"
  from pass_raised [OF ht] obtain c4 where c4: "rolling c4 = rolling c" "acquire_done c4"
    "trace c4 = trace c @ [DoAcquireClear]
                 @ (if rolling c then [] else [FileWriterOpen (filename c)])
                 @ replicate (length frames) QueueEmptyClear
                 @ [TriggerExit Raised, Log Exception ''Error in _trigger'', AcquireDoneSet]"
    "acquisition_pass h c =
               (if \<not> rolling c then
                  (Break, emit [Log Warning ''File likely incomplete or corrupt because of an error in _trigger.'',
                                FileWriterClose (filename c)] c4)
                else
                  (case roll_off h c4 of
                     Inl (e, c5) \<Rightarrow> (Died e, c5)
                   | Inr c5 \<Rightarrow> (Break, c5)))"
    by blast
  have stop: "fst (acquisition_pass h c) \<noteq> Continue"
    using c4(4) by (simp split: sum.splits prod.splits)
  from pass_events [OF ht] obtain post where post:
    "trace (snd (acquisition_pass h c)) =
          trace c @ [DoAcquireClear] @ (if rolling c then [] else [FileWriterOpen (filename c)])
            @ replicate (length frames) QueueEmptyClear @ [TriggerExit Raised]
            @ [Log Exception ''Error in _trigger''] @ [AcquireDoneSet] @ post"
    "\<forall>out'. TriggerExit out' \<notin> set post" "acquire_done (snd (acquisition_pass h c))"
    by auto
  have cnt: "count_list (drop (length (trace c)) (trace (snd (acquisition_pass h c))))
                  (TriggerExit out') = (if out' = Raised then 1 else 0)" for out'
  proof -
    have "count_list post (TriggerExit out') = 0"
      using post(2) by (simp add: count_list_0_iff)
    moreover have "count_list (replicate (length frames) QueueEmptyClear) (TriggerExit out') = 0"
      by (simp add: count_list_0_iff)
    ultimately show ?thesis
      by (auto simp: post(1))
  qed
  have roll: "fst (acquisition_pass h c) = Break
           \<and> \<not> rolling (snd (acquisition_pass h c)) \<and> \<not> armed (snd (acquisition_pass h c))"
    if "rolling c \<and> h_join h = None"
  proof -
    from that c4(1) roll_off_rolling [of c4 h] obtain c5 where
      "roll_off h c4 = Inr c5" "\<not> rolling c5" "\<not> armed c5"
      by auto
    with that c4(4) show ?thesis
      by simp
  qed
  have loop: "acquisition_loop_from h (other # others) c0 = Some (acquisition_pass h c)"
    if "other c0 = c \<and> do_acquire c" for other c0 others
  proof (cases "acquisition_pass h c")
    case (Pair ctl c')
    with stop that show ?thesis
      by (cases ctl) (simp_all add: Let_def)
  qed
  from stop post(3) c4 cnt roll loop
  show "fst (acquisition_pass h c) \<noteq> Continue
     \<and> acquire_done (snd (acquisition_pass h c))
     \<and> (\<exists>c4. rolling c4 = rolling c \<and> acquire_done c4
           \<and> trace c4 = trace c @ [DoAcquireClear]
                 @ (if rolling c then [] else [FileWriterOpen (filename c)])
                 @ replicate (length frames) QueueEmptyClear
                 @ [TriggerExit Raised, Log Exception ''Error in _trigger'', AcquireDoneSet]
           \<and> acquisition_pass h c =
               (if \<not> rolling c then
                  (Break, emit [Log Warning ''File likely incomplete or corrupt because of an error in _trigger.'',
                                FileWriterClose (filename c)] c4)
                else
                  (case roll_off h c4 of
                     Inl (e, c5) \<Rightarrow> (Died e, c5)
                   | Inr c5 \<Rightarrow> (Break, c5))))
     \<and> (\<forall>out'. count_list (drop (length (trace c)) (trace (snd (acquisition_pass h c))))
                  (TriggerExit out') = (if out' = Raised then 1 else 0))
     \<and> (rolling c \<and> h_join h = None \<longrightarrow>
           fst (acquisition_pass h c) = Break
           \<and> \<not> rolling (snd (acquisition_pass h c)) \<and> \<not> armed (snd (acquisition_pass h c)))
     \<and> (\<forall>other c0 others. other c0 = c \<and> do_acquire c \<longrightarrow>
           acquisition_loop_from h (other # others) c0 = Some (acquisition_pass h c))"
    by blast
qed

theorem trigger_failure_ends_loop_witness:
  "h_trigger (pair_detector Raised [] :: (rat \<times> int, nat, int) hooks) (dev armed_camera)
      = (Raised, [], (1, 1))
   \<and> fst (acquisition_pass (pair_detector Raised []) armed_camera) \<noteq> Continue
   \<and> acquire_done (snd (acquisition_pass (pair_detector Raised []) armed_camera))
   \<and> do_acquire armed_camera
   \<and> acquisition_loop_from (pair_detector Raised [])
        [\<lambda>c. c, \<lambda>c. c\<lparr>do_acquire := True\<rparr>] armed_camera
       = Some (acquisition_pass (pair_detector Raised []) armed_camera)
   \<and> rolling rolling_camera
   \<and> h_join (pair_detector Raised [] :: (rat \<times> int, nat, int) hooks) = None
   \<and> h_trigger (pair_detector Raised [] :: (rat \<times> int, nat, int) hooks) (dev rolling_camera)
      = (Raised, [], (1 / 4, 100))
   \<and> fst (acquisition_pass (pair_detector Raised []) rolling_camera) = Break
   \<and> rolling (snd (acquisition_pass (pair_detector Raised []) rolling_camera)) = False"
proof -
  let ?h = "pair_detector Raised [] :: (rat \<times> int, nat, int) hooks"
  have ht: "h_trigger ?h (dev armed_camera) = (Raised, [], (1, 1))"
    "h_trigger ?h (dev rolling_camera) = (Raised, [], (1 / 4, 100))" "h_join ?h = None"
    by (simp_all add: pair_detector_def armed_camera_facts rolling_camera_facts)
  note a = trigger_failure_ends_loop
             [where h = ?h and c = armed_camera and frames = "[]" and d = "(1, 1)",
              THEN mp, OF ht(1)]
  note r = trigger_failure_ends_loop
             [where h = ?h and c = rolling_camera and frames = "[]" and d = "(1 / 4, 100)",
              THEN mp, OF ht(2)]
  have a1: "fst (acquisition_pass ?h armed_camera) \<noteq> Continue"
    using a by (elim conjE)
  have a2: "acquire_done (snd (acquisition_pass ?h armed_camera))"
    using a by (elim conjE)
  have a3: "\<forall>other c0 others. other c0 = armed_camera \<and> do_acquire armed_camera \<longrightarrow>
           acquisition_loop_from ?h (other # others) c0 = Some (acquisition_pass ?h armed_camera)"
    using a by (elim conjE)
  have a4: "acquisition_loop_from ?h [\<lambda>c. c, \<lambda>c. c\<lparr>do_acquire := True\<rparr>] armed_camera
       = Some (acquisition_pass ?h armed_camera)"
    using a3 [THEN spec, THEN spec, THEN spec,
              of "\<lambda>c. c" armed_camera "[\<lambda>c. c\<lparr>do_acquire := True\<rparr>]"]
          armed_camera_facts(3)
    by simp
  have r1: "rolling rolling_camera \<and> h_join ?h = None \<longrightarrow>
           fst (acquisition_pass ?h rolling_camera) = Break
           \<and> \<not> rolling (snd (acquisition_pass ?h rolling_camera))
           \<and> \<not> armed (snd (acquisition_pass ?h rolling_camera))"
    using r by (elim conjE)
  from r1 ht(3) rolling_camera_facts(1)
  have r2: "fst (acquisition_pass ?h rolling_camera) = Break"
    "rolling (snd (acquisition_pass ?h rolling_camera)) = False"
    by simp_all
  from ht a1 a2 armed_camera_facts(3) a4 rolling_camera_facts(1) r2 show ?thesis
    by (intro conjI)
qed

end
